theory Spec2Isabelle
  imports Complex_Main
begin

section \<open>The orders service (src/orders/orders.service.ts)\<close>

text \<open>
  A shallow embedding of \<^verbatim>\<open>OrdersService\<close>. The service is a class with two
  collaborators: the Prisma client it extends (the tables \<^verbatim>\<open>order\<close>,
  \<^verbatim>\<open>OrderItem\<close> and \<^verbatim>\<open>OrderReceipt\<close>) and a NATS client proxy
  (\<^verbatim>\<open>this.client.send\<close>). The tables and the log of the messages sent are the
  explicit state; the replies of the remote services, the identifier the store gives a
  new row and the clock are parameters. Every \<^verbatim>\<open>throw\<close> and every rejected promise
  is \<open>Inl\<close> of an error value. JavaScript numbers are modelled as integers: prices,
  quantities, pages and limits are taken to be whole numbers within the exactly
  representable range.
\<close>

subsection \<open>Data\<close>

datatype order_status = PENDING | PAID | DELIVERED | CANCELLED

text \<open>
  Modelled from the spec: the Prisma schema (the declaration of the three tables) is not
  among the sources. The columns are the ones the service reads and writes; a new order
  starts as PENDING, unpaid, with no payment date and no charge reference.
\<close>

record order_row =
  order_id :: string
  totalAmount :: int
  totalItems :: int
  status :: order_status
  paid :: bool
  paidAt :: "int option"
  stripeChargeId :: "string option"

text \<open>\<^verbatim>\<open>{productId, quantity}\<close>, an entry of \<^verbatim>\<open>createOrderDto.items\<close>.\<close>

record order_item_dto =
  productId :: string
  quantity :: int

text \<open>\<^verbatim>\<open>{productId, quantity, price}\<close>: the data of a created item, and what
  \<^verbatim>\<open>select: {price, quantity, productId}\<close> reads back.\<close>

record order_item = order_item_dto +
  price :: int

text \<open>\<^verbatim>\<open>{...item, name}\<close>: an item with the product's name.\<close>

record order_item_named = order_item +
  name :: string

text \<open>A row of the table \<^verbatim>\<open>OrderItem\<close>: the item and the order it belongs to.\<close>

record order_item_row = order_item +
  item_orderId :: string

record order_receipt_row =
  receipt_orderId :: string
  receipt_receiptUrl :: string

text \<open>\<^verbatim>\<open>{...order, OrderItem: [...]}\<close>, the interface \<^verbatim>\<open>OrderWithProducts\<close>.\<close>

record order_with_products = order_row +
  OrderItem :: "order_item_named list"

text \<open>An entry of the validator's reply, \<^verbatim>\<open>{id, name, price}\<close>.\<close>

record product =
  product_id :: string
  product_name :: string
  product_price :: int

record create_order_dto =
  items :: "order_item_dto list"

text \<open>\<^verbatim>\<open>status\<close> is optional in the pagination request: \<open>None\<close> is
  \<^verbatim>\<open>undefined\<close>, which Prisma's \<^verbatim>\<open>where\<close> ignores.\<close>

record order_pagination_dto =
  page :: int
  limit :: int
  pagination_status :: "order_status option"

record change_order_status_dto =
  change_id :: string
  change_status :: order_status

record paid_order_dto =
  orderId :: string
  stripePaymentId :: string
  receiptUrl :: string

record payment_item =
  payment_name :: string
  payment_price :: int
  payment_quantity :: int

record payment_session_request =
  session_orderId :: string
  currency :: string
  session_items :: "payment_item list"

text \<open>The messages \<^verbatim>\<open>this.client.send\<close> puts on the transport.\<close>

datatype message =
    ValidateProducts "string list"
  | CreatePaymentSession payment_session_request

text \<open>
  What the service can throw: its own \<^verbatim>\<open>RpcException({status, message})\<close>, the
  \<^verbatim>\<open>TypeError\<close> of reading a property of \<^verbatim>\<open>undefined\<close> (the argument is the
  property), a rejected reply of a remote service (the argument is its message), the
  error of the Prisma client for a request the database refused (the arguments are
  its code and its message), and the error of the Prisma client for a query with an
  argument out of range.
\<close>

datatype error =
    RpcException nat string
  | TypeError string
  | RemoteError string
  | PrismaClientKnownRequestError string string
  | PrismaClientValidationError string

definition BAD_REQUEST :: nat where
  "BAD_REQUEST = 400"

definition NOT_FOUND :: nat where
  "NOT_FOUND = 404"

text \<open>\<^verbatim>\<open>error.message\<close>.\<close>

fun error_message :: "error \<Rightarrow> string" where
  "error_message (RpcException st m) = m"
| "error_message (TypeError p) =
     ''Cannot read properties of undefined (reading '' @ [CHR 0x27] @ p @ [CHR 0x27] @ '')''"
| "error_message (RemoteError m) = m"
| "error_message (PrismaClientKnownRequestError c m) = m"
| "error_message (PrismaClientValidationError m) = m"

record state =
  orders :: "order_row list"
  order_items :: "order_item_row list"
  order_receipts :: "order_receipt_row list"
  sent :: "message list"

text \<open>A JavaScript number that a division can produce.\<close>

datatype js_number = Finite int | PosInfinity | NegInfinity | NaN

record page_meta =
  meta_total :: int
  meta_page :: int
  lastPage :: js_number

record page_result =
  data :: "order_row list"
  meta :: page_meta

subsection \<open>The store\<close>

text \<open>\<^verbatim>\<open>this.client.send(pattern, payload)\<close>: the message goes on the transport.\<close>

definition send :: "message \<Rightarrow> state \<Rightarrow> state" where
  "send m s = s\<lparr>sent := sent s @ [m]\<rparr>"

text \<open>\<^verbatim>\<open>include: {OrderItem: {select: {price, quantity, productId}}}\<close>.\<close>

definition select_item :: "order_item_row \<Rightarrow> order_item" where
  "select_item r = \<lparr>productId = productId r, quantity = quantity r, price = price r\<rparr>"

definition include_OrderItem :: "string \<Rightarrow> state \<Rightarrow> order_item list" where
  "include_OrderItem i s =
     map select_item (filter (\<lambda>r. item_orderId r = i) (order_items s))"

text \<open>
  \<^verbatim>\<open>this.order.create({data: {totalAmount, totalItems, OrderItem: {createMany}},
  include: {OrderItem: {select}}})\<close>: one transaction that inserts the order and its
  items, and returns the new order with the items it created. The identifier is the
  store's (a parameter here); a second row with a primary key already there is refused
  with Prisma's P2002.
\<close>

definition order_create ::
  "string \<Rightarrow> int \<Rightarrow> int \<Rightarrow> order_item list \<Rightarrow> state
     \<Rightarrow> error + (order_row \<times> order_item list \<times> state)" where
  "order_create new_id amount n its s =
     (if find (\<lambda>order. order_id order = new_id) (orders s) \<noteq> None
      then Inl (PrismaClientKnownRequestError ''P2002''
                 ''Unique constraint failed on the fields: (id)'')
      else
        let row = \<lparr>order_id = new_id, totalAmount = amount, totalItems = n,
                   status = PENDING, paid = False, paidAt = None, stripeChargeId = None\<rparr>;
            rows = map (\<lambda>item. \<lparr>productId = productId item, quantity = quantity item,
                                 price = price item, item_orderId = new_id\<rparr>) its
        in Inr (row, map select_item rows,
                s\<lparr>orders := orders s @ [row], order_items := order_items s @ rows\<rparr>))"

text \<open>\<^verbatim>\<open>where: {status}\<close>.\<close>

definition where_status :: "order_status option \<Rightarrow> order_row \<Rightarrow> bool" where
  "where_status f order = (case f of None \<Rightarrow> True | Some st \<Rightarrow> status order = st)"

definition order_count :: "order_status option \<Rightarrow> state \<Rightarrow> int" where
  "order_count f s = int (length (filter (where_status f) (orders s)))"

text \<open>
  \<^verbatim>\<open>this.order.findMany({skip, take, where})\<close>. Prisma refuses a negative
  \<^verbatim>\<open>skip\<close>; a negative \<^verbatim>\<open>take\<close> reads from the end of the list.
\<close>

definition order_findMany ::
  "int \<Rightarrow> int \<Rightarrow> order_status option \<Rightarrow> state \<Rightarrow> error + order_row list" where
  "order_findMany skip tk f s =
     (let rows = filter (where_status f) (orders s) in
      if skip < 0
      then Inl (PrismaClientValidationError
                 ''Invalid value for skip argument: Value can only be positive'')
      else if 0 \<le> tk then Inr (take (nat tk) (drop (nat skip) rows))
      else Inr (rev (take (nat (- tk)) (drop (nat skip) (rev rows)))))"

text \<open>\<^verbatim>\<open>this.order.findFirst({where: {id}})\<close>.\<close>

definition order_findFirst :: "string \<Rightarrow> state \<Rightarrow> order_row option" where
  "order_findFirst i s = find (\<lambda>order. order_id order = i) (orders s)"

text \<open>
  \<^verbatim>\<open>this.order.update({where: {id}, data})\<close> on the rows: the row with the
  identifier is rewritten and returned; \<open>None\<close> when there is none (Prisma's P2025).
\<close>

fun update_where ::
  "string \<Rightarrow> (order_row \<Rightarrow> order_row) \<Rightarrow> order_row list \<Rightarrow> (order_row \<times> order_row list) option" where
  "update_where i f [] = None"
| "update_where i f (order # rest) =
     (if order_id order = i then Some (f order, f order # rest)
      else (case update_where i f rest of
              None \<Rightarrow> None
            | Some (row, rest') \<Rightarrow> Some (row, order # rest')))"

definition order_update ::
  "string \<Rightarrow> (order_row \<Rightarrow> order_row) \<Rightarrow> state \<Rightarrow> error + (order_row \<times> state)" where
  "order_update i f s =
     (case update_where i f (orders s) of
        None \<Rightarrow> Inl (PrismaClientKnownRequestError ''P2025'' ''Record to update not found.'')
      | Some (row, rows) \<Rightarrow> Inr (row, s\<lparr>orders := rows\<rparr>))"

text \<open>
  Modelled from the spec: the Prisma schema, which declares the relation between an
  order and its receipt, is not among the sources. By the data model of the spec an
  order owns at most one receipt, and by its repository contract the update and the
  nested \<^verbatim>\<open>OrderReceipt: {create: {receiptUrl}}\<close> are one transaction. So the
  update of an order that has no receipt rewrites the order and inserts one receipt
  row for it; the update of an order that already has a receipt is refused with
  Prisma's error for a violated relation (P2014, its message shortened here), and
  nothing is written; an order that is not there is refused with P2025.
\<close>

definition order_update_with_receipt ::
  "string \<Rightarrow> (order_row \<Rightarrow> order_row) \<Rightarrow> string \<Rightarrow> state \<Rightarrow> error + (order_row \<times> state)" where
  "order_update_with_receipt i f url s =
     (case update_where i f (orders s) of
        None \<Rightarrow> Inl (PrismaClientKnownRequestError ''P2025'' ''Record to update not found.'')
      | Some (row, rows) \<Rightarrow>
          if find (\<lambda>receipt. receipt_orderId receipt = i) (order_receipts s) \<noteq> None
          then Inl (PrismaClientKnownRequestError ''P2014''
                     ''The change you are trying to make would violate the required relation'')
          else Inr (row, s\<lparr>orders := rows,
                            order_receipts := order_receipts s @
                              [\<lparr>receipt_orderId = i, receipt_receiptUrl = url\<rparr>]\<rparr>))"

subsection \<open>create\<close>

text \<open>
  \<^verbatim>\<open>items.reduce((acc, orderItem) => { const price = products.find(...).price;
  return price * orderItem.quantity; }, 0)\<close>: the callback returns the product of the
  current item; \<^verbatim>\<open>find\<close> gives \<^verbatim>\<open>undefined\<close> for an unknown product, and reading
  \<^verbatim>\<open>.price\<close> of it throws.
\<close>

fun totalAmount_reduce ::
  "product list \<Rightarrow> int \<Rightarrow> order_item_dto list \<Rightarrow> error + int" where
  "totalAmount_reduce products acc [] = Inr acc"
| "totalAmount_reduce products acc (orderItem # rest) =
     (case find (\<lambda>product. product_id product = productId orderItem) products of
        None \<Rightarrow> Inl (TypeError ''price'')
      | Some product \<Rightarrow>
          totalAmount_reduce products (product_price product * quantity orderItem) rest)"

text \<open>\<^verbatim>\<open>items.reduce((acc, orderItem) => acc + orderItem.quantity, 0)\<close>.\<close>

fun totalItems_reduce :: "int \<Rightarrow> order_item_dto list \<Rightarrow> int" where
  "totalItems_reduce acc [] = acc"
| "totalItems_reduce acc (orderItem # rest) =
     totalItems_reduce (acc + quantity orderItem) rest"

text \<open>\<^verbatim>\<open>items.map((item) => ({productId, quantity, price: products.find(...).price}))\<close>.\<close>

fun createMany_data :: "product list \<Rightarrow> order_item_dto list \<Rightarrow> error + order_item list" where
  "createMany_data products [] = Inr []"
| "createMany_data products (item # rest) =
     (case find (\<lambda>product. product_id product = productId item) products of
        None \<Rightarrow> Inl (TypeError ''price'')
      | Some product \<Rightarrow>
          (case createMany_data products rest of
             Inl e \<Rightarrow> Inl e
           | Inr its \<Rightarrow>
               Inr (\<lparr>productId = productId item, quantity = quantity item,
                     price = product_price product\<rparr> # its)))"

text \<open>\<^verbatim>\<open>OrderItem.map((item) => ({...item, name: products.find(...).name}))\<close>.\<close>

fun with_names :: "product list \<Rightarrow> order_item list \<Rightarrow> error + order_item_named list" where
  "with_names products [] = Inr []"
| "with_names products (item # rest) =
     (case find (\<lambda>product. product_id product = productId item) products of
        None \<Rightarrow> Inl (TypeError ''name'')
      | Some product \<Rightarrow>
          (case with_names products rest of
             Inl e \<Rightarrow> Inl e
           | Inr its \<Rightarrow>
               Inr (\<lparr>productId = productId item, quantity = quantity item,
                     price = price item, name = product_name product\<rparr> # its)))"

text \<open>\<^verbatim>\<open>{...order, OrderItem: named}\<close>.\<close>

definition spread_order :: "order_row \<Rightarrow> order_item_named list \<Rightarrow> order_with_products" where
  "spread_order order named =
     \<lparr>order_id = order_id order, totalAmount = totalAmount order,
      totalItems = totalItems order, status = status order, paid = paid order,
      paidAt = paidAt order, stripeChargeId = stripeChargeId order, OrderItem = named\<rparr>"

text \<open>The body of the \<^verbatim>\<open>try\<close> block of \<^verbatim>\<open>create\<close>.\<close>

definition create_try ::
  "(string list \<Rightarrow> error + product list) \<Rightarrow> string \<Rightarrow> create_order_dto \<Rightarrow> state
     \<Rightarrow> (error + order_with_products) \<times> state" where
  "create_try validate_products new_id createOrderDto s =
     (let productIds = map productId (items createOrderDto);
          s1 = send (ValidateProducts productIds) s
      in case validate_products productIds of
           Inl e \<Rightarrow> (Inl e, s1)
         | Inr products \<Rightarrow>
             (case totalAmount_reduce products 0 (items createOrderDto) of
                Inl e \<Rightarrow> (Inl e, s1)
              | Inr amount \<Rightarrow>
                  let n = totalItems_reduce 0 (items createOrderDto) in
                  (case createMany_data products (items createOrderDto) of
                     Inl e \<Rightarrow> (Inl e, s1)
                   | Inr its \<Rightarrow>
                       (case order_create new_id amount n its s1 of
                          Inl e \<Rightarrow> (Inl e, s1)
                        | Inr (order, created, s2) \<Rightarrow>
                            (case with_names products created of
                               Inl e \<Rightarrow> (Inl e, s2)
                             | Inr named \<Rightarrow> (Inr (spread_order order named), s2))))))"

text \<open>\<^verbatim>\<open>create\<close>: the \<^verbatim>\<open>catch\<close> turns every error of the block into
  \<^verbatim>\<open>RpcException({status: BAD_REQUEST, message: error.message})\<close>.\<close>

definition create ::
  "(string list \<Rightarrow> error + product list) \<Rightarrow> string \<Rightarrow> create_order_dto \<Rightarrow> state
     \<Rightarrow> (error + order_with_products) \<times> state" where
  "create validate_products new_id createOrderDto s =
     (case create_try validate_products new_id createOrderDto s of
        (Inl e, s') \<Rightarrow> (Inl (RpcException BAD_REQUEST (error_message e)), s')
      | (Inr order, s') \<Rightarrow> (Inr order, s'))"

subsection \<open>findAll\<close>

text \<open>\<^verbatim>\<open>Math.ceil(totalPages / perPage)\<close>: the division of JavaScript gives
  an infinity or NaN for a zero divisor.\<close>

definition math_ceil_div :: "int \<Rightarrow> int \<Rightarrow> js_number" where
  "math_ceil_div n d =
     (if d = 0 then (if n = 0 then NaN else if 0 < n then PosInfinity else NegInfinity)
      else Finite \<lceil>(of_int n :: rat) / of_int d\<rceil>)"

definition findAll :: "order_pagination_dto \<Rightarrow> state \<Rightarrow> (error + page_result) \<times> state" where
  "findAll orderPaginationDto s =
     (let totalPages = order_count (pagination_status orderPaginationDto) s;
          currentPage = page orderPaginationDto;
          perPage = limit orderPaginationDto
      in case order_findMany ((currentPage - 1) * perPage) perPage
                (pagination_status orderPaginationDto) s of
           Inl e \<Rightarrow> (Inl e, s)
         | Inr rows \<Rightarrow>
             (Inr \<lparr>data = rows,
                   meta = \<lparr>meta_total = totalPages, meta_page = currentPage,
                           lastPage = math_ceil_div totalPages perPage\<rparr>\<rparr>, s))"

subsection \<open>findOne and changeStatus\<close>

definition findOne ::
  "(string list \<Rightarrow> error + product list) \<Rightarrow> string \<Rightarrow> state
     \<Rightarrow> (error + order_with_products) \<times> state" where
  "findOne validate_products i s =
     (case order_findFirst i s of
        None \<Rightarrow>
          (Inl (RpcException NOT_FOUND (''Order with id '' @ i @ '' not found'')), s)
      | Some order \<Rightarrow>
          let its = include_OrderItem (order_id order) s;
              productIds = map productId its;
              s1 = send (ValidateProducts productIds) s
          in case validate_products productIds of
               Inl e \<Rightarrow> (Inl e, s1)
             | Inr products \<Rightarrow>
                 (case with_names products its of
                    Inl e \<Rightarrow> (Inl e, s1)
                  | Inr named \<Rightarrow> (Inr (spread_order order named), s1)))"

definition changeStatus ::
  "(string list \<Rightarrow> error + product list) \<Rightarrow> change_order_status_dto \<Rightarrow> state
     \<Rightarrow> (error + order_row) \<times> state" where
  "changeStatus validate_products changeOrderStatusDto s =
     (case findOne validate_products (change_id changeOrderStatusDto) s of
        (Inl e, s1) \<Rightarrow> (Inl e, s1)
      | (Inr order, s1) \<Rightarrow>
          (case order_update (change_id changeOrderStatusDto)
                  (\<lambda>row. row\<lparr>status := change_status changeOrderStatusDto\<rparr>) s1 of
             Inl e \<Rightarrow> (Inl e, s1)
           | Inr (row, s2) \<Rightarrow> (Inr row, s2)))"

subsection \<open>createPaymentSession and paidOrder\<close>

definition payment_request :: "order_with_products \<Rightarrow> payment_session_request" where
  "payment_request order =
     \<lparr>session_orderId = order_id order, currency = ''usd'',
      session_items = map (\<lambda>item. \<lparr>payment_name = name item, payment_price = price item,
                                     payment_quantity = quantity item\<rparr>) (OrderItem order)\<rparr>"

definition createPaymentSession ::
  "(payment_session_request \<Rightarrow> error + 's) \<Rightarrow> order_with_products \<Rightarrow> state
     \<Rightarrow> (error + 's) \<times> state" where
  "createPaymentSession create_payment_session order s =
     (let request = payment_request order
      in (create_payment_session request, send (CreatePaymentSession request) s))"

text \<open>\<^verbatim>\<open>paidOrder\<close>; \<open>now\<close> is \<^verbatim>\<open>new Date()\<close>.\<close>

definition paidOrder :: "int \<Rightarrow> paid_order_dto \<Rightarrow> state \<Rightarrow> (error + order_row) \<times> state" where
  "paidOrder now paidOrderDto s =
     (case order_update_with_receipt (orderId paidOrderDto)
             (\<lambda>row. row\<lparr>status := PAID, paid := True, paidAt := Some now,
                         stripeChargeId := Some (stripePaymentId paidOrderDto)\<rparr>)
             (receiptUrl paidOrderDto) s of
        Inl e \<Rightarrow> (Inl e, s)
      | Inr (row, s') \<Rightarrow> (Inr row, s'))"

subsection \<open>Reading the messages sent\<close>

text \<open>The product identifiers a message carries to the validator.\<close>

fun payload_productIds :: "message \<Rightarrow> string list" where
  "payload_productIds (ValidateProducts ids) = ids"
| "payload_productIds (CreatePaymentSession request) = []"

subsection \<open>A fake catalog and sample requests\<close>

text \<open>
  The inputs of the examples: a catalog of two products behind a validator that replies
  with the products it knows among the identifiers asked, a validator that cannot be
  reached, an empty store, and three creation requests (the example of the spec, one
  that names a product twice, one that names an unknown product).
\<close>

definition catalog :: "product list" where
  "catalog = [\<lparr>product_id = ''p1'', product_name = ''A'', product_price = 10\<rparr>,
              \<lparr>product_id = ''p2'', product_name = ''B'', product_price = 5\<rparr>]"

definition catalog_validator :: "string list \<Rightarrow> error + product list" where
  "catalog_validator ids = Inr (filter (\<lambda>product. product_id product \<in> set ids) catalog)"

definition unavailable_validator :: "string list \<Rightarrow> error + product list" where
  "unavailable_validator ids = Inl (RemoteError ''no responders'')"

definition empty_store :: state where
  "empty_store = \<lparr>orders = [], order_items = [], order_receipts = [], sent = []\<rparr>"

definition example_dto :: create_order_dto where
  "example_dto = \<lparr>items = [\<lparr>productId = ''p1'', quantity = 2\<rparr>,
                            \<lparr>productId = ''p2'', quantity = 1\<rparr>]\<rparr>"

definition twice_dto :: create_order_dto where
  "twice_dto = \<lparr>items = [\<lparr>productId = ''p1'', quantity = 2\<rparr>,
                          \<lparr>productId = ''p1'', quantity = 1\<rparr>]\<rparr>"

definition unknown_dto :: create_order_dto where
  "unknown_dto = \<lparr>items = [\<lparr>productId = ''p1'', quantity = 2\<rparr>,
                            \<lparr>productId = ''p9'', quantity = 1\<rparr>]\<rparr>"

text \<open>A store with three orders, four items and one receipt. The product p9 of the
  order o2 is not in the catalog.\<close>

definition sample_store :: state where
  "sample_store =
     \<lparr>orders =
        [\<lparr>order_id = ''o1'', totalAmount = 5, totalItems = 3, status = PENDING,
          paid = False, paidAt = None, stripeChargeId = None\<rparr>,
         \<lparr>order_id = ''o2'', totalAmount = 7, totalItems = 1, status = PAID,
          paid = True, paidAt = Some 1000, stripeChargeId = Some ''ch_2''\<rparr>,
         \<lparr>order_id = ''o3'', totalAmount = 10, totalItems = 1, status = PENDING,
          paid = False, paidAt = None, stripeChargeId = None\<rparr>],
      order_items =
        [\<lparr>productId = ''p1'', quantity = 2, price = 10, item_orderId = ''o1''\<rparr>,
         \<lparr>productId = ''p2'', quantity = 1, price = 5, item_orderId = ''o1''\<rparr>,
         \<lparr>productId = ''p9'', quantity = 1, price = 7, item_orderId = ''o2''\<rparr>,
         \<lparr>productId = ''p1'', quantity = 1, price = 10, item_orderId = ''o3''\<rparr>],
      order_receipts = [\<lparr>receipt_orderId = ''o2'', receipt_receiptUrl = ''https://r/2''\<rparr>],
      sent = []\<rparr>"

subsection \<open>Named items\<close>

text \<open>An item of a result is named from a reply of the validator: it is the stored item,
  and its name is the name of the first product of the reply with the item's product
  identifier.\<close>

definition named_from :: "product list \<Rightarrow> order_item \<Rightarrow> order_item_named \<Rightarrow> bool" where
  "named_from products item named =
     (productId named = productId item \<and> quantity named = quantity item
      \<and> price named = price item
      \<and> map_option product_name (find (\<lambda>product. product_id product = productId item) products)
          = Some (name named))"

section \<open>Properties of create\<close>

subsection \<open>Looking products up\<close>

lemma find_product_None:
  "find (\<lambda>product. product_id product = i) products = None \<longleftrightarrow> i \<notin> product_id ` set products"
  by (auto simp: find_None_iff)

lemma totalAmount_reduce_known:
  "productId ` set its \<subseteq> product_id ` set products \<Longrightarrow>
     \<exists>amount. totalAmount_reduce products acc its = Inr amount"
proof (induction its arbitrary: acc)
  case Nil
  then show ?case by simp
next
  case (Cons item its)
  then obtain p where "find (\<lambda>product. product_id product = productId item) products = Some p"
    using find_product_None [of "productId item" products] by auto
  with Cons show ?case by simp
qed

lemma totalAmount_reduce_unknown:
  "\<not> productId ` set its \<subseteq> product_id ` set products \<Longrightarrow>
     totalAmount_reduce products acc its = Inl (TypeError ''price'')"
proof (induction its arbitrary: acc)
  case Nil
  then show ?case by simp
next
  case (Cons item its)
  show ?case
  proof (cases "find (\<lambda>product. product_id product = productId item) products")
    case None
    then show ?thesis by simp
  next
    case (Some p)
    then have "productId item \<in> product_id ` set products"
      using find_product_None [of "productId item" products] by auto
    with Cons.prems have "\<not> productId ` set its \<subseteq> product_id ` set products" by auto
    with Cons.IH Some show ?thesis by simp
  qed
qed

text \<open>What the first reduction computes: the accumulator is dropped at every step, so
  only the last item counts.\<close>

lemma totalAmount_reduce_last:
  "totalAmount_reduce products acc its = Inr amount \<Longrightarrow> its \<noteq> [] \<Longrightarrow>
     \<exists>p. find (\<lambda>product. product_id product = productId (last its)) products = Some p
        \<and> amount = product_price p * quantity (last its)"
proof (induction its arbitrary: acc)
  case Nil
  then show ?case by simp
next
  case (Cons item its)
  then show ?case by (cases its) (auto split: option.splits)
qed

lemma totalItems_reduce_sum:
  "totalItems_reduce acc its = acc + sum_list (map quantity its)"
  by (induction its arbitrary: acc) auto

lemma createMany_data_known:
  "productId ` set its \<subseteq> product_id ` set products \<Longrightarrow>
     \<exists>created. createMany_data products its = Inr created
        \<and> map productId created = map productId its
        \<and> map quantity created = map quantity its"
proof (induction its)
  case Nil
  then show ?case by simp
next
  case (Cons item its)
  then obtain p where "find (\<lambda>product. product_id product = productId item) products = Some p"
    using find_product_None [of "productId item" products] by auto
  with Cons show ?case by auto
qed

lemma with_names_known:
  "productId ` set its \<subseteq> product_id ` set products \<Longrightarrow>
     \<exists>named. with_names products its = Inr named"
proof (induction its)
  case Nil
  then show ?case by simp
next
  case (Cons item its)
  then obtain p where "find (\<lambda>product. product_id product = productId item) products = Some p"
    using find_product_None [of "productId item" products] by auto
  with Cons show ?case by auto
qed

lemma select_created:
  "map (select_item \<circ> (\<lambda>item. \<lparr>productId = productId item, quantity = quantity item,
        price = price item, item_orderId = i\<rparr>)) (its :: order_item list) = its"
  by (induction its) (auto simp: select_item_def)

lemma find_snoc_fresh:
  "find P xs = None \<Longrightarrow> find P (xs @ [x]) = (if P x then Some x else None)"
  by (induction xs) (auto split: if_splits)

lemma create_try_sent:
  "sent (snd (create_try validate_products new_id createOrderDto s)) =
     sent s @ [ValidateProducts (map productId (items createOrderDto))]"
  by (auto simp: create_try_def send_def order_create_def Let_def
      split: sum.splits prod.splits if_splits)

lemma create_snd:
  "snd (create validate_products new_id createOrderDto s) =
     snd (create_try validate_products new_id createOrderDto s)"
  by (auto simp: create_def split: sum.splits prod.splits)

subsection \<open>The total amount\<close>

text \<open>
  Claim C1: the total amount of the persisted order is the sum over the items of unit
  price times quantity; for the items p1 (quantity 2) and p2 (quantity 1) at the prices
  10 and 5 it is 25.

  The reduction of \<^verbatim>\<open>create\<close> returns \<^verbatim>\<open>price * orderItem.quantity\<close> without
  adding the accumulator, so the code computes the amount of the last item alone. On
  the example of the spec the order returned and the order persisted both carry the
  total amount 5, not 25.
\<close>

theorem create_example_totalAmount:
  "map_sum id totalAmount (fst (create catalog_validator ''o1'' example_dto empty_store)) = Inr 5
   \<and> map totalAmount (orders (snd (create catalog_validator ''o1'' example_dto empty_store))) = [5]"
  by (simp add: create_def create_try_def catalog_validator_def catalog_def example_dto_def
      empty_store_def send_def order_create_def select_item_def spread_order_def Let_def)

subsection \<open>Rejected requests\<close>

text \<open>
  Claim C2: when the validator call fails, or when the reply of the validator lacks the
  product of at least one item, \<^verbatim>\<open>create\<close> persists nothing (the tables of orders,
  items and receipts are as before) and raises one error of status BAD_REQUEST whose
  message is the message of the underlying error: the validator's error, or the
  TypeError of reading \<^verbatim>\<open>price\<close> of the product that was not found.
\<close>

theorem create_rejects:
  assumes "case validate_products (map productId (items createOrderDto)) of
             Inl e \<Rightarrow> True
           | Inr products \<Rightarrow> \<not> productId ` set (items createOrderDto) \<subseteq> product_id ` set products"
  shows "fst (create validate_products new_id createOrderDto s) =
           Inl (RpcException BAD_REQUEST (error_message
             (case validate_products (map productId (items createOrderDto)) of
                Inl e \<Rightarrow> e | Inr products \<Rightarrow> TypeError ''price'')))
         \<and> orders (snd (create validate_products new_id createOrderDto s)) = orders s
         \<and> order_items (snd (create validate_products new_id createOrderDto s)) = order_items s
         \<and> order_receipts (snd (create validate_products new_id createOrderDto s)) = order_receipts s"
proof (cases "validate_products (map productId (items createOrderDto))")
  case (Inl e)
  then show ?thesis
    by (simp add: create_def create_try_def send_def Let_def)
next
  case (Inr products)
  with assms have "\<not> productId ` set (items createOrderDto) \<subseteq> product_id ` set products"
    by simp
  then have "totalAmount_reduce products 0 (items createOrderDto) = Inl (TypeError ''price'')"
    by (rule totalAmount_reduce_unknown)
  with Inr show ?thesis
    by (simp add: create_def create_try_def send_def Let_def)
qed

theorem create_rejects_witness:
  "fst (create catalog_validator ''o1'' unknown_dto empty_store) =
     Inl (RpcException 400 (error_message (TypeError ''price'')))
   \<and> orders (snd (create catalog_validator ''o1'' unknown_dto empty_store)) = []
   \<and> order_items (snd (create catalog_validator ''o1'' unknown_dto empty_store)) = []
   \<and> order_receipts (snd (create catalog_validator ''o1'' unknown_dto empty_store)) = []
   \<and> fst (create unavailable_validator ''o1'' example_dto empty_store) =
     Inl (RpcException 400 ''no responders'')
   \<and> orders (snd (create unavailable_validator ''o1'' example_dto empty_store)) = []"
  using create_rejects [where validate_products = catalog_validator and createOrderDto = unknown_dto
      and new_id = "''o1''" and s = empty_store]
    create_rejects [where validate_products = unavailable_validator
      and createOrderDto = example_dto and new_id = "''o1''" and s = empty_store]
  by (simp add: catalog_validator_def catalog_def unknown_dto_def example_dto_def
      unavailable_validator_def empty_store_def BAD_REQUEST_def)

subsection \<open>The request to the validator\<close>

text \<open>
  Claim C5, as the code has it: \<^verbatim>\<open>create\<close> sends the validator one message, whose
  payload is the list of the product identifiers of the items, one entry for each item
  in the order of the items; an identifier that several items name is sent once for
  each of them. The identifiers sent are, as a set, the identifiers the items name.
\<close>

theorem create_sends_item_productIds:
  "sent (snd (create validate_products new_id createOrderDto s)) =
     sent s @ [ValidateProducts (map productId (items createOrderDto))]
   \<and> set (payload_productIds (last (sent (snd (create validate_products new_id createOrderDto s))))) =
       productId ` set (items createOrderDto)
   \<and> length (payload_productIds (last (sent (snd (create validate_products new_id createOrderDto s))))) =
       length (items createOrderDto)"
  by (simp add: create_snd create_try_sent)

text \<open>
  Claim C5, as stated (each distinct identifier is sent once), fails for a request with
  two items of the product p1: the payload is not free of duplicates.
\<close>

theorem create_sends_duplicates:
  "\<not> distinct (payload_productIds
       (last (sent (snd (create catalog_validator ''o1'' twice_dto empty_store)))))"
  by (simp add: create_def create_try_def catalog_validator_def catalog_def twice_dto_def
      empty_store_def send_def order_create_def select_item_def spread_order_def Let_def)

subsection \<open>The number of items\<close>

text \<open>
  Claim C7: when the validator replies and its reply holds the product of every item
  (and the store accepts the new identifier), \<^verbatim>\<open>create\<close> succeeds, and the total
  number of items of the order returned, and of the order found in the store under the
  new identifier, is the sum of the quantities of the items.
\<close>

theorem create_totalItems:
  assumes "validate_products (map productId (items createOrderDto)) = Inr products"
    and "productId ` set (items createOrderDto) \<subseteq> product_id ` set products"
    and "order_findFirst new_id s = None"
  shows "\<exists>order. fst (create validate_products new_id createOrderDto s) = Inr order
           \<and> totalItems order = sum_list (map quantity (items createOrderDto))
           \<and> map_option totalItems
               (order_findFirst new_id (snd (create validate_products new_id createOrderDto s))) =
             Some (sum_list (map quantity (items createOrderDto)))"
proof -
  obtain amount where amount: "totalAmount_reduce products 0 (items createOrderDto) = Inr amount"
    using totalAmount_reduce_known [OF assms(2)] by blast
  obtain created where created: "createMany_data products (items createOrderDto) = Inr created"
    and ids: "map productId created = map productId (items createOrderDto)"
    using createMany_data_known [OF assms(2)] by blast
  have "productId ` set created = productId ` set (items createOrderDto)"
    using ids by (metis set_map)
  with assms(2) obtain named where named: "with_names products created = Inr named"
    using with_names_known [of created products] by auto
  from assms(3) have fresh: "find (\<lambda>order. order_id order = new_id) (orders s) = None"
    by (simp add: order_findFirst_def)
  show ?thesis
    using assms(1) amount created named fresh
    by (simp add: create_def create_try_def send_def order_create_def Let_def
        select_created spread_order_def order_findFirst_def find_snoc_fresh
        totalItems_reduce_sum)
qed

theorem create_totalItems_witness:
  "\<exists>order. fst (create catalog_validator ''o1'' example_dto empty_store) = Inr order
     \<and> totalItems order = 3
     \<and> map_option totalItems
         (order_findFirst ''o1'' (snd (create catalog_validator ''o1'' example_dto empty_store))) =
       Some 3"
  using create_totalItems [where validate_products = catalog_validator
      and createOrderDto = example_dto and products = catalog and new_id = "''o1''"
      and s = empty_store]
  by (simp add: catalog_validator_def catalog_def example_dto_def empty_store_def
      order_findFirst_def)

section \<open>Properties of findAll\<close>

lemma ceil_div_bounds:
  fixes n d :: int
  assumes "0 < d"
  shows "(\<lceil>(of_int n :: rat) / of_int d\<rceil> - 1) * d < n \<and> n \<le> \<lceil>(of_int n :: rat) / of_int d\<rceil> * d"
proof -
  let ?q = "(of_int n :: rat) / of_int d"
  from assms have d: "(0::rat) < of_int d" by simp
  have lo: "of_int \<lceil>?q\<rceil> - 1 < ?q" by linarith
  have hi: "?q \<le> of_int \<lceil>?q\<rceil>" by linarith
  from lo d have "(of_int \<lceil>?q\<rceil> - 1) * of_int d < (of_int n :: rat)"
    by (simp add: pos_less_divide_eq)
  then have lo': "(of_int ((\<lceil>?q\<rceil> - 1) * d) :: rat) < of_int n"
    by simp
  from hi have "(of_int n :: rat) \<le> of_int \<lceil>?q\<rceil> * of_int d"
    by (simp only: pos_divide_le_eq [OF d])
  then have hi': "(of_int n :: rat) \<le> of_int (\<lceil>?q\<rceil> * d)"
    by simp
  from lo' hi' have "(\<lceil>?q\<rceil> - 1) * d < n" and "n \<le> \<lceil>?q\<rceil> * d"
    by (simp_all only: of_int_less_iff of_int_le_iff)
  then show ?thesis by simp
qed

text \<open>
  Claim C3: for a page and a limit of at least 1, \<^verbatim>\<open>findAll\<close> raises no error and
  leaves the store as it is; with T the number of the rows that match the filter, the
  data are the rows from offset (page - 1) * limit on, at most limit of them; the
  metadata are the total T, the page asked and the last page L = ceil(T / limit), the
  least number of pages of that size that hold T rows; and the data are empty when the
  page asked is beyond L.
\<close>

theorem findAll_page:
  assumes "1 \<le> page orderPaginationDto" and "1 \<le> limit orderPaginationDto"
  shows "\<exists>rows L.
           findAll orderPaginationDto s =
             (Inr \<lparr>data = rows,
                   meta = \<lparr>meta_total = int (length (filter (where_status (pagination_status orderPaginationDto)) (orders s))),
                           meta_page = page orderPaginationDto, lastPage = Finite L\<rparr>\<rparr>, s)
         \<and> rows = take (nat (limit orderPaginationDto))
                    (drop (nat ((page orderPaginationDto - 1) * limit orderPaginationDto))
                      (filter (where_status (pagination_status orderPaginationDto)) (orders s)))
         \<and> int (length rows) \<le> limit orderPaginationDto
         \<and> L = \<lceil>(of_nat (length (filter (where_status (pagination_status orderPaginationDto)) (orders s))) :: rat)
                 / of_int (limit orderPaginationDto)\<rceil>
         \<and> (L - 1) * limit orderPaginationDto
              < int (length (filter (where_status (pagination_status orderPaginationDto)) (orders s)))
         \<and> int (length (filter (where_status (pagination_status orderPaginationDto)) (orders s)))
              \<le> L * limit orderPaginationDto
         \<and> (L < page orderPaginationDto \<longrightarrow> rows = [])"
proof -
  define matching where
    "matching = filter (where_status (pagination_status orderPaginationDto)) (orders s)"
  define L where
    "L = \<lceil>(of_int (int (length matching)) :: rat) / of_int (limit orderPaginationDto)\<rceil>"
  define rows where
    "rows = take (nat (limit orderPaginationDto))
       (drop (nat ((page orderPaginationDto - 1) * limit orderPaginationDto)) matching)"
  from assms have "0 \<le> (page orderPaginationDto - 1) * limit orderPaginationDto"
    by simp
  then have skip: "\<not> (page orderPaginationDto - 1) * limit orderPaginationDto < 0"
    by (simp only: not_less)
  have run: "findAll orderPaginationDto s =
      (Inr \<lparr>data = rows, meta = \<lparr>meta_total = int (length matching),
          meta_page = page orderPaginationDto, lastPage = Finite L\<rparr>\<rparr>, s)"
    using assms skip
    by (simp add: findAll_def order_count_def order_findMany_def math_ceil_div_def Let_def
        matching_def L_def rows_def)
  have len: "int (length rows) \<le> limit orderPaginationDto"
    using assms by (simp add: rows_def)
  have bounds: "(L - 1) * limit orderPaginationDto < int (length matching)"
    "int (length matching) \<le> L * limit orderPaginationDto"
    using ceil_div_bounds [of "limit orderPaginationDto" "int (length matching)"] assms
    by (simp_all add: L_def)
  have beyond: "rows = []" if "L < page orderPaginationDto"
  proof -
    from that have "L \<le> page orderPaginationDto - 1" by simp
    with assms have "L * limit orderPaginationDto
        \<le> (page orderPaginationDto - 1) * limit orderPaginationDto"
      by (simp add: mult_right_mono)
    with bounds(2) have "int (length matching)
        \<le> (page orderPaginationDto - 1) * limit orderPaginationDto"
      by linarith
    then have "length matching \<le> nat ((page orderPaginationDto - 1) * limit orderPaginationDto)"
      by linarith
    then show ?thesis by (simp add: rows_def)
  qed
  show ?thesis
    using run len bounds beyond
    by (intro exI [of _ rows] exI [of _ L])
      (simp add: matching_def [symmetric] rows_def [symmetric] L_def)
qed

theorem findAll_page_witness:
  "findAll \<lparr>page = 2, limit = 1, pagination_status = Some PENDING\<rparr> sample_store =
     (Inr \<lparr>data = [\<lparr>order_id = ''o3'', totalAmount = 10, totalItems = 1, status = PENDING,
                      paid = False, paidAt = None, stripeChargeId = None\<rparr>],
           meta = \<lparr>meta_total = 2, meta_page = 2, lastPage = Finite 2\<rparr>\<rparr>, sample_store)
   \<and> findAll \<lparr>page = 3, limit = 2, pagination_status = None\<rparr> sample_store =
     (Inr \<lparr>data = [], meta = \<lparr>meta_total = 3, meta_page = 3, lastPage = Finite 2\<rparr>\<rparr>, sample_store)"
  using findAll_page [where orderPaginationDto =
        "\<lparr>page = 2, limit = 1, pagination_status = Some PENDING\<rparr>" and s = sample_store]
    findAll_page [where orderPaginationDto =
        "\<lparr>page = 3, limit = 2, pagination_status = None\<rparr>" and s = sample_store]
  by (simp add: sample_store_def where_status_def)

section \<open>Properties of findOne and changeStatus\<close>

lemma find_order_id:
  "find (\<lambda>order. order_id order = i) rows = Some order \<Longrightarrow> order_id order = i"
  by (auto simp: find_Some_iff)

lemma with_names_unknown:
  "\<not> productId ` set its \<subseteq> product_id ` set products \<Longrightarrow>
     with_names products its = Inl (TypeError ''name'')"
proof (induction its)
  case Nil
  then show ?case by simp
next
  case (Cons item its)
  show ?case
  proof (cases "find (\<lambda>product. product_id product = productId item) products")
    case None
    then show ?thesis by simp
  next
    case (Some p)
    then have "productId item \<in> product_id ` set products"
      using find_product_None [of "productId item" products] by auto
    with Cons.prems have "\<not> productId ` set its \<subseteq> product_id ` set products" by auto
    with Cons.IH Some show ?thesis by simp
  qed
qed

lemma with_names_named:
  "with_names products its = Inr named \<Longrightarrow> list_all2 (named_from products) its named"
proof (induction its arbitrary: named)
  case Nil
  then show ?case by simp
next
  case (Cons item its)
  then show ?case
    by (auto simp: named_from_def split: option.splits sum.splits)
qed

text \<open>\<^verbatim>\<open>findOne\<close> after the order was found.\<close>

lemma findOne_found:
  assumes "order_findFirst i s = Some order"
  shows "findOne validate_products i s =
     (case validate_products (map productId (include_OrderItem i s)) of
        Inl e \<Rightarrow> (Inl e, send (ValidateProducts (map productId (include_OrderItem i s))) s)
      | Inr products \<Rightarrow>
          (case with_names products (include_OrderItem i s) of
             Inl e \<Rightarrow> (Inl e, send (ValidateProducts (map productId (include_OrderItem i s))) s)
           | Inr named \<Rightarrow>
               (Inr (spread_order order named),
                send (ValidateProducts (map productId (include_OrderItem i s))) s)))"
proof -
  from assms have "find (\<lambda>order. order_id order = i) (orders s) = Some order"
    by (simp add: order_findFirst_def)
  then have "order_id order = i"
    by (rule find_order_id)
  with assms show ?thesis
    by (simp add: findOne_def Let_def)
qed

text \<open>
  Claim C6: for an identifier with no order in the store, \<^verbatim>\<open>findOne\<close> raises the
  error of status NOT_FOUND whose message names the identifier, and
  \<^verbatim>\<open>changeStatus\<close> on that identifier raises the same error; neither changes the
  store, and neither sends a message.
\<close>

theorem findOne_missing:
  assumes "order_findFirst i s = None"
  shows "findOne validate_products i s =
           (Inl (RpcException NOT_FOUND (''Order with id '' @ i @ '' not found'')), s)
         \<and> changeStatus validate_products \<lparr>change_id = i, change_status = st\<rparr> s =
           (Inl (RpcException NOT_FOUND (''Order with id '' @ i @ '' not found'')), s)"
  using assms by (simp add: findOne_def changeStatus_def)

theorem findOne_missing_witness:
  "findOne catalog_validator ''o7'' sample_store =
     (Inl (RpcException 404 ''Order with id o7 not found''), sample_store)
   \<and> changeStatus catalog_validator \<lparr>change_id = ''o7'', change_status = DELIVERED\<rparr> sample_store =
     (Inl (RpcException 404 ''Order with id o7 not found''), sample_store)"
  using findOne_missing [where i = "''o7''" and s = sample_store
      and validate_products = catalog_validator and st = DELIVERED]
  by (simp add: sample_store_def order_findFirst_def NOT_FOUND_def)

text \<open>
  Claim C8: for an identifier with an order in the store, when the validator call of
  \<^verbatim>\<open>findOne\<close> fails, or its reply lacks the product of a stored item,
  \<^verbatim>\<open>findOne\<close> fails: with the validator's error, or with the TypeError of reading
  \<^verbatim>\<open>name\<close> of the product that was not found. Whenever \<^verbatim>\<open>findOne\<close> returns a
  result, the validator has replied and every item of the result carries the name of
  the product the reply gives for it.
\<close>

theorem findOne_fail_fast:
  assumes "order_findFirst i s = Some order"
  shows "((case validate_products (map productId (include_OrderItem i s)) of
             Inl e \<Rightarrow> True
           | Inr products \<Rightarrow> \<not> productId ` set (include_OrderItem i s) \<subseteq> product_id ` set products)
          \<longrightarrow> fst (findOne validate_products i s) =
                Inl (case validate_products (map productId (include_OrderItem i s)) of
                       Inl e \<Rightarrow> e | Inr products \<Rightarrow> TypeError ''name''))
         \<and> (\<forall>result. fst (findOne validate_products i s) = Inr result \<longrightarrow>
               (\<exists>products. validate_products (map productId (include_OrderItem i s)) = Inr products
                  \<and> list_all2 (named_from products) (include_OrderItem i s) (OrderItem result)))"
proof (cases "validate_products (map productId (include_OrderItem i s))")
  case (Inl e)
  then show ?thesis
    by (simp add: findOne_found [OF assms])
next
  case (Inr products)
  show ?thesis
  proof (cases "productId ` set (include_OrderItem i s) \<subseteq> product_id ` set products")
    case True
    then obtain named where named: "with_names products (include_OrderItem i s) = Inr named"
      using with_names_known by blast
    then have "list_all2 (named_from products) (include_OrderItem i s) named"
      by (rule with_names_named)
    with Inr True named show ?thesis
      by (simp add: findOne_found [OF assms] spread_order_def)
  next
    case False
    then have "with_names products (include_OrderItem i s) = Inl (TypeError ''name'')"
      by (rule with_names_unknown)
    with Inr False show ?thesis
      by (simp add: findOne_found [OF assms])
  qed
qed

theorem findOne_fail_fast_witness:
  "fst (findOne unavailable_validator ''o1'' sample_store) = Inl (RemoteError ''no responders'')
   \<and> fst (findOne catalog_validator ''o2'' sample_store) = Inl (TypeError ''name'')
   \<and> map_sum id (\<lambda>result. map name (OrderItem result))
        (fst (findOne catalog_validator ''o1'' sample_store)) = Inr [''A'', ''B'']"
  using findOne_fail_fast [where i = "''o1''" and s = sample_store
      and validate_products = unavailable_validator
      and order = "\<lparr>order_id = ''o1'', totalAmount = 5, totalItems = 3, status = PENDING,
          paid = False, paidAt = None, stripeChargeId = None\<rparr>"]
    findOne_fail_fast [where i = "''o2''" and s = sample_store
      and validate_products = catalog_validator
      and order = "\<lparr>order_id = ''o2'', totalAmount = 7, totalItems = 1, status = PAID,
          paid = True, paidAt = Some 1000, stripeChargeId = Some ''ch_2''\<rparr>"]
  by (simp add: sample_store_def order_findFirst_def include_OrderItem_def select_item_def
      unavailable_validator_def catalog_validator_def catalog_def findOne_def Let_def
      send_def spread_order_def)

section \<open>Properties of createPaymentSession\<close>

text \<open>
  Claim C9: \<^verbatim>\<open>createPaymentSession\<close> writes nothing to the tables of orders, items
  and receipts; it sends the gateway one request, with the identifier of the order, the
  currency usd and the items of the order mapped to name, price and quantity; and what
  it returns is the reply of the gateway to that request, as it is.
\<close>

theorem createPaymentSession_frame:
  "createPaymentSession create_payment_session order s =
     (create_payment_session
        \<lparr>session_orderId = order_id order, currency = ''usd'',
         session_items = map (\<lambda>item. \<lparr>payment_name = name item, payment_price = price item,
                                        payment_quantity = quantity item\<rparr>) (OrderItem order)\<rparr>,
      s\<lparr>sent := sent s @
          [CreatePaymentSession
             \<lparr>session_orderId = order_id order, currency = ''usd'',
              session_items = map (\<lambda>item. \<lparr>payment_name = name item, payment_price = price item,
                                             payment_quantity = quantity item\<rparr>) (OrderItem order)\<rparr>]\<rparr>)
   \<and> orders (snd (createPaymentSession create_payment_session order s)) = orders s
   \<and> order_items (snd (createPaymentSession create_payment_session order s)) = order_items s
   \<and> order_receipts (snd (createPaymentSession create_payment_session order s)) = order_receipts s"
  by (simp add: createPaymentSession_def payment_request_def send_def Let_def)

section \<open>Properties of paidOrder\<close>

lemma update_where_missing:
  "find (\<lambda>order. order_id order = i) rows = None \<Longrightarrow> update_where i f rows = None"
  by (induction rows) (auto split: if_splits)





text \<open>
  Claim C10: for an identifier with no order in the store, \<^verbatim>\<open>paidOrder\<close> fails with
  the error of the Prisma client for a record to update that was not found (P2025), as
  the client raised it: it is no \<^verbatim>\<open>RpcException\<close>, so it has no NOT_FOUND status;
  the store is left as it was.
\<close>

theorem paidOrder_missing:
  assumes "order_findFirst (orderId paidOrderDto) s = None"
  shows "paidOrder now paidOrderDto s =
           (Inl (PrismaClientKnownRequestError ''P2025'' ''Record to update not found.''), s)
         \<and> (\<forall>st msg. fst (paidOrder now paidOrderDto s) \<noteq> Inl (RpcException st msg))"
  using assms
  by (simp add: paidOrder_def order_update_with_receipt_def order_findFirst_def
      update_where_missing)

theorem paidOrder_missing_witness:
  "paidOrder 2000 \<lparr>orderId = ''o7'', stripePaymentId = ''ch_7'', receiptUrl = ''https://r/7''\<rparr>
       sample_store =
     (Inl (PrismaClientKnownRequestError ''P2025'' ''Record to update not found.''),
      sample_store)"
  using paidOrder_missing [where paidOrderDto =
        "\<lparr>orderId = ''o7'', stripePaymentId = ''ch_7'', receiptUrl = ''https://r/7''\<rparr>"
      and s = sample_store and now = 2000]
  by (simp add: sample_store_def order_findFirst_def)

end
